theory Spec2Isabelle
  imports Complex_Main "HOL-Library.AList"
begin

section \<open>Python values\<close>

text \<open>
  A Python \<^verbatim>\<open>str\<close> is a sequence of Unicode code points, so it is modelled as a list of
  naturals (one per code point, not one per UTF-8 byte). ASCII literals of the source are
  written through \<open>ascii\<close>; the Chinese literals are given by their code points.
\<close>

type_synonym pystr = "nat list"
type_synonym bytes = "nat list"

definition ascii :: "string \<Rightarrow> pystr" where
  "ascii s = map of_char s"

text \<open>Truthiness of an \<^verbatim>\<open>Optional[str]\<close>: \<^verbatim>\<open>None\<close> and the empty string are falsy.\<close>

definition truthy :: "pystr option \<Rightarrow> bool" where
  "truthy x = (case x of None \<Rightarrow> False | Some s \<Rightarrow> s \<noteq> [])"

text \<open>\<^verbatim>\<open>str(n)\<close> for an \<^verbatim>\<open>int\<close>: decimal digits, with a minus sign for negatives.\<close>

function digits :: "nat \<Rightarrow> pystr" where
  "digits n = (if n < 10 then [48 + n] else digits (n div 10) @ [48 + n mod 10])"
  by pat_completeness auto
termination
  by (relation "measure id") auto

declare digits.simps [simp del]

definition str_int :: "int \<Rightarrow> pystr" where
  "str_int i = (if i < 0 then 45 # digits (nat (- i)) else digits (nat i))"



text \<open>
  Exceptions are values. Only subclasses of \<^verbatim>\<open>Exception\<close> are modelled (those are what
  the source's \<^verbatim>\<open>except Exception\<close> clauses catch). \<open>External n\<close> stands for an exception
  raised inside a collaborator (the network client, PIL, the filesystem), \<open>n\<close> telling
  one such exception from another.
\<close>

datatype exn =
    ValueError pystr
  | KeyError pystr
  | TypeError
  | OverflowError
  | ValidationError
  | HTTPException nat pystr
  | External nat

text \<open>A decoded JSON document, as \<^verbatim>\<open>json.loads\<close> returns it.\<close>

datatype jval =
    JNull
  | JBool bool
  | JNumber rat
  | JString pystr
  | JArray "jval list"
  | JObject "(pystr \<times> jval) list"

text \<open>An in-memory PIL image; the number identifies the picture.\<close>

datatype pil_image = Image nat

text \<open>
  What one call of the image capability gives: either an exception (raised by
  \<^verbatim>\<open>generate_content\<close> itself or while reading
  \<^verbatim>\<open>response.candidates[0].content.parts\<close>), or the list of parts, each with its
  \<^verbatim>\<open>inline_data\<close> payload when it has one.
\<close>

datatype api_reply = Raises exn | Parts "bytes option list"

text \<open>
  The observable effects, in the order they happen: calls of the text capability, calls
  of the image capability (with the prompt, the reference image and the 0-based attempt
  number), \<^verbatim>\<open>time.sleep\<close> delays, and image files written.
\<close>

datatype event =
    TextCall pystr "pil_image option"
  | ImageCall pystr "pil_image option" nat
  | Sleep nat
  | Saved pystr


fun image_calls :: "event list \<Rightarrow> (pystr \<times> pil_image option \<times> nat) list" where
  "image_calls [] = []"
| "image_calls (ImageCall p r k # es) = (p, r, k) # image_calls es"
| "image_calls (e # es) = image_calls es"

text \<open>
  The collaborators of the program: the two generation capabilities, \<^verbatim>\<open>json.loads\<close>,
  the filesystem, PIL, \<^verbatim>\<open>uuid.uuid4\<close>, the configured \<^verbatim>\<open>BASE_URL\<close>, and Python's
  \<^verbatim>\<open>str()\<close> of a JSON value that is not a string. Each one that can raise returns a sum.
  The image capability is asked per attempt: \<open>generate_image env prompt ref k\<close> is its
  reply at the attempt numbered \<open>k\<close>.
\<close>

record env =
  generate_text :: "pystr \<Rightarrow> pil_image option \<Rightarrow> exn + pystr option"
  json_loads :: "pystr \<Rightarrow> jval option"
  generate_image :: "pystr \<Rightarrow> pil_image option \<Rightarrow> nat \<Rightarrow> api_reply"
  path_exists :: "pystr \<Rightarrow> bool"
  open_file :: "pystr \<Rightarrow> exn + pil_image"
  open_bytes :: "bytes \<Rightarrow> exn + pil_image"
  b64_image :: "pystr \<Rightarrow> exn + pil_image"
  makedirs :: "exn option"
  uuid4 :: pystr
  save :: "pil_image \<Rightarrow> pystr \<Rightarrow> exn option"
  BASE_URL :: pystr
  format_value :: "jval \<Rightarrow> pystr"

section \<open>The image generation client\<close>

definition IMAGE_CONSISTENCY_RULE :: pystr where
  "IMAGE_CONSISTENCY_RULE = ascii ''you should maintain visual consistency for the main character based on the reference image provided. The character's appearance, features, clothing, and colors must be exactly the same. Now, generate the following scene:''"

definition max_retries :: nat where
  "max_retries = 3"

definition initial_delay :: nat where
  "initial_delay = 2"

definition NO_IMAGE_DATA :: pystr where
  "NO_IMAGE_DATA = ascii ''API'' @
     [0x867D, 0x6210, 0x529F, 0x4F46, 0x672A, 0x8FD4, 0x56DE, 0x56FE, 0x7247, 0x6570, 0x636E]"

definition RETRY_ENDED :: pystr where
  "RETRY_ENDED = [0x672A, 0x80FD, 0x4ECE] @ ascii ''API'' @
     [0x76F8, 0x5E94, 0x4E2D, 0x83B7, 0x53D6, 0x56FE, 0x7247, 0x6570, 0x636E, 0xFF0C, 0x4E14,
      0x91CD, 0x8BD5, 0x673A, 0x5236, 0x5F02, 0x5E38, 0x7ED3, 0x675F]"

text \<open>
  The inner \<^verbatim>\<open>for part in ...parts\<close>: the first part with inline data ends the call
  with its bytes; a response without any raises the \<^verbatim>\<open>ValueError\<close>.
\<close>

fun first_inline_data :: "bytes option list \<Rightarrow> exn + bytes" where
  "first_inline_data [] = Inl (ValueError NO_IMAGE_DATA)"
| "first_inline_data (None # ps) = first_inline_data ps"
| "first_inline_data (Some d # ps) = Inr d"

text \<open>The body of the \<^verbatim>\<open>try\<close> of one attempt.\<close>

definition attempt_result :: "api_reply \<Rightarrow> exn + bytes" where
  "attempt_result r = (case r of Raises e \<Rightarrow> Inl e | Parts ps \<Rightarrow> first_inline_data ps)"

text \<open>
  The \<^verbatim>\<open>for attempt in range(max_retries)\<close> loop, by recursion on the attempts left.
  A failed attempt that is not the last sleeps \<open>initial_delay * 2 ^ attempt\<close> and goes on;
  the last one raises its exception again. The \<^verbatim>\<open>raise\<close> after the loop is the first
  equation.
\<close>

fun retry_loop :: "env \<Rightarrow> pystr \<Rightarrow> pil_image option \<Rightarrow> nat list \<Rightarrow> (exn + bytes) \<times> event list" where
  "retry_loop env prompt ref [] = (Inl (ValueError RETRY_ENDED), [])"
| "retry_loop env prompt ref (attempt # rest) =
     (case attempt_result (generate_image env prompt ref attempt) of
        Inr d \<Rightarrow> (Inr d, [ImageCall prompt ref attempt])
      | Inl e \<Rightarrow>
          if attempt < max_retries - 1
          then (case retry_loop env prompt ref rest of
                  (r, tr) \<Rightarrow>
                    (r, ImageCall prompt ref attempt # Sleep (initial_delay * 2 ^ attempt) # tr))
          else (Inl e, [ImageCall prompt ref attempt]))"

definition blocking_image_generation ::
  "env \<Rightarrow> pystr \<Rightarrow> pil_image option \<Rightarrow> (exn + bytes) \<times> event list" where
  "blocking_image_generation env prompt previous_image =
     retry_loop env prompt previous_image [0..<max_retries]"

section \<open>The continuity image orchestrator\<close>

definition GENERATED_IMAGES :: pystr where
  "GENERATED_IMAGES = ascii ''generated_images''"

definition PLACEHOLDER :: pystr where
  "PLACEHOLDER = ascii ''https://via.placeholder.com/512x512.png?text=Image+Generation+Failed''"

text \<open>\<^verbatim>\<open>os.path.basename\<close> and the two-argument \<^verbatim>\<open>os.path.join\<close> (POSIX; 47 is the slash).\<close>

definition basename :: "pystr \<Rightarrow> pystr" where
  "basename p = rev (takeWhile (\<lambda>c. c \<noteq> 47) (rev p))"

definition path_join :: "pystr \<Rightarrow> pystr \<Rightarrow> pystr" where
  "path_join a b =
     (if b \<noteq> [] \<and> hd b = 47 then b
      else if a = [] \<or> last a = 47 then a @ b
      else a @ [47] @ b)"

text \<open>
  Reference resolution: the caller's image when there is one (a PIL image is always
  truthy); otherwise the file of the previous address, when that address is truthy and
  the file exists. Opening the file may raise.
\<close>

definition resolve_reference :: "env \<Rightarrow> pystr option \<Rightarrow> pil_image option \<Rightarrow> exn + pil_image option" where
  "resolve_reference env previous_image_url initial_image =
     (case initial_image of
        Some im \<Rightarrow> Inr (Some im)
      | None \<Rightarrow>
          (case previous_image_url of
             None \<Rightarrow> Inr None
           | Some url \<Rightarrow>
               if url = [] then Inr None
               else let local_image_path = path_join GENERATED_IMAGES (basename url) in
                 if path_exists env local_image_path
                 then (case open_file env local_image_path of
                         Inl e \<Rightarrow> Inl e
                       | Inr im \<Rightarrow> Inr (Some im))
                 else Inr None))"

text \<open>The body of the \<^verbatim>\<open>try\<close> of \<^verbatim>\<open>generate_consistent_image\<close>.\<close>

definition generate_consistent_image_try ::
  "env \<Rightarrow> pystr \<Rightarrow> pystr option \<Rightarrow> pil_image option \<Rightarrow> (exn + pystr) \<times> event list" where
  "generate_consistent_image_try env prompt previous_image_url initial_image =
     (case resolve_reference env previous_image_url initial_image of
        Inl e \<Rightarrow> (Inl e, [])
      | Inr previous_image_object \<Rightarrow>
          (case blocking_image_generation env prompt previous_image_object of
             (Inl e, tr) \<Rightarrow> (Inl e, tr)
           | (Inr image_data, tr) \<Rightarrow>
               (case open_bytes env image_data of
                  Inl e \<Rightarrow> (Inl e, tr)
                | Inr img \<Rightarrow>
                    (case makedirs env of
                       Some e \<Rightarrow> (Inl e, tr)
                     | None \<Rightarrow>
                         let filename = uuid4 env @ ascii ''.png'';
                             save_path = path_join GENERATED_IMAGES filename
                         in (case save env img save_path of
                               Some e \<Rightarrow> (Inl e, tr)
                             | None \<Rightarrow>
                                 (Inr (BASE_URL env @ ascii ''/images/'' @ filename),
                                  tr @ [Saved save_path]))))))"

text \<open>The \<^verbatim>\<open>except Exception\<close> handler: reuse the previous address, or the placeholder.\<close>

definition image_fallback :: "pystr option \<Rightarrow> pystr" where
  "image_fallback previous_image_url =
     (case previous_image_url of
        None \<Rightarrow> PLACEHOLDER
      | Some url \<Rightarrow> if url \<noteq> [] then url else PLACEHOLDER)"

definition generate_consistent_image ::
  "env \<Rightarrow> pystr \<Rightarrow> pystr option \<Rightarrow> pil_image option \<Rightarrow> pystr \<times> event list" where
  "generate_consistent_image env prompt previous_image_url initial_image =
     (case generate_consistent_image_try env prompt previous_image_url initial_image of
        (Inr image_url, tr) \<Rightarrow> (image_url, tr)
      | (Inl e, tr) \<Rightarrow> (image_fallback previous_image_url, tr))"

section \<open>Data model\<close>

text \<open>
  The pydantic models. Field names that clash with an Isabelle keyword or constant, or
  with a field of another record, carry a suffix: \<open>id_choice\<close> and \<open>text_choice\<close> are
  \<^verbatim>\<open>StoryChoice.id\<close> and \<^verbatim>\<open>StoryChoice.text\<close>, \<open>text_story\<close> is
  \<^verbatim>\<open>StoryResponse.text\<close>, \<open>total_steps_start\<close> is \<^verbatim>\<open>StoryStartRequest.total_steps\<close>.
\<close>

record StoryChoice =
  id_choice :: pystr
  text_choice :: pystr

record StoryResponse =
  text_story :: pystr
  image_url :: "pystr option"
  choices :: "StoryChoice list"
  main_quest :: pystr

record NextStepRequest =
  choice_id :: "pystr option"
  user_action :: "pystr option"
  story_history :: "StoryResponse list"
  previous_image_url :: "pystr option"
  current_step :: int
  total_steps :: int

record StoryStartRequest =
  character :: "pystr option"
  setting :: pystr
  total_steps_start :: int
  image_data_url :: "pystr option"

section \<open>Validation of the advance request\<close>











section \<open>The narrative generation client\<close>

definition NOT_VALID_JSON :: pystr where
  "NOT_VALID_JSON =
     ascii ''AI response was not valid JSON.''"

definition UNEXPECTED_ERROR :: pystr where
  "UNEXPECTED_ERROR =
     ascii ''An unexpected error occurred with the Gemini service.''"


text \<open>
  \<^verbatim>\<open>generate_story_part\<close>: one call of the text capability, then \<^verbatim>\<open>json.loads\<close>.
  A response without text makes \<^verbatim>\<open>json.loads(None)\<close> raise a \<^verbatim>\<open>TypeError\<close>, which
  the general handler turns into the same \<^verbatim>\<open>HTTPException\<close> as a failed call; an
  \<^verbatim>\<open>HTTPException\<close> is raised again as it is.
\<close>

definition generate_story_part ::
  "env \<Rightarrow> pystr \<Rightarrow> pil_image option \<Rightarrow> (exn + jval) \<times> event list" where
  "generate_story_part env prompt image_input =
     (case generate_text env prompt image_input of
        Inl e \<Rightarrow>
          (case e of
             HTTPException code detail \<Rightarrow> (Inl e, [TextCall prompt image_input])
           | _ \<Rightarrow> (Inl (HTTPException 500 UNEXPECTED_ERROR), [TextCall prompt image_input]))
      | Inr None \<Rightarrow> (Inl (HTTPException 500 UNEXPECTED_ERROR), [TextCall prompt image_input])
      | Inr (Some response_text) \<Rightarrow>
          (case json_loads env response_text of
             None \<Rightarrow> (Inl (HTTPException 500 NOT_VALID_JSON), [TextCall prompt image_input])
           | Some ai_data \<Rightarrow> (Inr ai_data, [TextCall prompt image_input])))"

text \<open>
  What the handlers do with the decoded document: \<^verbatim>\<open>ai_data[key]\<close>,
  \<^verbatim>\<open>ai_data[key] = value\<close>, iteration over \<^verbatim>\<open>ai_data["choices"]\<close> (a list gives its
  elements, a string its characters, a dict its keys; anything else is not iterable),
  \<^verbatim>\<open>StoryChoice(**choice)\<close> (the argument must be a mapping, with strings under
  \<^verbatim>\<open>id\<close> and \<^verbatim>\<open>text\<close>; other keys are ignored), and the formatting of a value inside
  an f-string (a string as it is).
\<close>

definition getitem :: "jval \<Rightarrow> pystr \<Rightarrow> exn + jval" where
  "getitem v k =
     (case v of
        JObject kvs \<Rightarrow> (case map_of kvs k of None \<Rightarrow> Inl (KeyError k) | Some x \<Rightarrow> Inr x)
      | _ \<Rightarrow> Inl TypeError)"

definition setitem :: "jval \<Rightarrow> pystr \<Rightarrow> jval \<Rightarrow> exn + jval" where
  "setitem v k x =
     (case v of
        JObject kvs \<Rightarrow> Inr (JObject (AList.update k x kvs))
      | _ \<Rightarrow> Inl TypeError)"

definition iter_values :: "jval \<Rightarrow> exn + jval list" where
  "iter_values v =
     (case v of
        JArray xs \<Rightarrow> Inr xs
      | JString s \<Rightarrow> Inr (map (\<lambda>c. JString [c]) s)
      | JObject kvs \<Rightarrow> Inr (map (\<lambda>kv. JString (fst kv)) kvs)
      | _ \<Rightarrow> Inl TypeError)"

definition make_choice :: "jval \<Rightarrow> exn + StoryChoice" where
  "make_choice choice =
     (case choice of
        JObject kvs \<Rightarrow>
          (case map_of kvs (ascii ''id'') of
             Some (JString i) \<Rightarrow>
               (case map_of kvs (ascii ''text'') of
                  Some (JString t) \<Rightarrow> Inr \<lparr>id_choice = i, text_choice = t\<rparr>
                | _ \<Rightarrow> Inl ValidationError)
           | _ \<Rightarrow> Inl ValidationError)
      | _ \<Rightarrow> Inl TypeError)"

fun make_choices :: "jval list \<Rightarrow> exn + StoryChoice list" where
  "make_choices [] = Inr []"
| "make_choices (c # cs) =
     (case make_choice c of
        Inl e \<Rightarrow> Inl e
      | Inr x \<Rightarrow> (case make_choices cs of Inl e \<Rightarrow> Inl e | Inr xs \<Rightarrow> Inr (x # xs)))"

definition format_str :: "env \<Rightarrow> jval \<Rightarrow> pystr" where
  "format_str env v = (case v of JString s \<Rightarrow> s | _ \<Rightarrow> format_value env v)"

text \<open>
  The \<^verbatim>\<open>StoryResponse(...)\<close> call at the end of both handlers: its arguments are
  evaluated in order (the text, then the choices), and the model then requires the text
  and the main quest to be strings.
\<close>

definition story_response :: "jval \<Rightarrow> pystr \<Rightarrow> (jval \<Rightarrow> exn + jval) \<Rightarrow> exn + StoryResponse" where
  "story_response ai_data generated_image_url quest =
     (case getitem ai_data (ascii ''text'') of
        Inl e \<Rightarrow> Inl e
      | Inr t \<Rightarrow>
          (case getitem ai_data (ascii ''choices'') of
             Inl e \<Rightarrow> Inl e
           | Inr cs \<Rightarrow>
               (case iter_values cs of
                  Inl e \<Rightarrow> Inl e
                | Inr items \<Rightarrow>
                    (case make_choices items of
                       Inl e \<Rightarrow> Inl e
                     | Inr chs \<Rightarrow>
                         (case quest ai_data of
                            Inl e \<Rightarrow> Inl e
                          | Inr q \<Rightarrow>
                              (case t of
                                 JString s \<Rightarrow>
                                   (case q of
                                      JString m \<Rightarrow>
                                        Inr \<lparr>text_story = s,
                                             image_url = Some generated_image_url,
                                             choices = chs, main_quest = m\<rparr>
                                    | _ \<Rightarrow> Inl ValidationError)
                               | _ \<Rightarrow> Inl ValidationError))))))"

text \<open>\<^verbatim>\<open>f"{IMAGE_CONSISTENCY_RULE} {ai_data['image_prompt']}"\<close>, the same line in both handlers.\<close>

definition final_image_prompt :: "env \<Rightarrow> jval \<Rightarrow> exn + pystr" where
  "final_image_prompt env ai_data =
     (case getitem ai_data (ascii ''image_prompt'') of
        Inl e \<Rightarrow> Inl e
      | Inr d \<Rightarrow> Inr (IMAGE_CONSISTENCY_RULE @ ascii '' '' @ format_str env d))"

section \<open>Double-precision arithmetic of the phase test\<close>

text \<open>
  The phase test is \<^verbatim>\<open>request.current_step >= request.total_steps * 0.75\<close>: the integer
  is converted to a double, multiplied by the double 0.75, and the integer
  \<^verbatim>\<open>current_step\<close> is compared with the product (Python compares an int with a float by
  value, exactly). A double has a 53-bit significand, and conversion and multiplication
  round to nearest, ties to even. \<open>round53\<close> rounds an integer to 53 significant bits.
  The conversion raises \<^verbatim>\<open>OverflowError\<close> when the rounded value does not fit a double.
  The converted value is an integer; since 0.75 is three quarters, the product is the
  rounding of three times that integer, divided by four (a division by a power of two
  is exact here: the product is neither subnormal nor larger than its operand).
\<close>

function bit_length :: "nat \<Rightarrow> nat" where
  "bit_length n = (if n = 0 then 0 else Suc (bit_length (n div 2)))"
  by pat_completeness auto
termination
  by (relation "measure id") auto

declare bit_length.simps [simp del]

definition round53 :: "int \<Rightarrow> int" where
  "round53 n =
     (let a = nat \<bar>n\<bar>; k = bit_length a - 53 in
      if k = 0 then n
      else let q = a div 2 ^ k; r = a mod 2 ^ k; h = 2 ^ (k - 1);
               q' = (if h < r \<or> (r = h \<and> odd q) then q + 1 else q)
           in sgn n * int (q' * 2 ^ k))"

definition float_of_int :: "int \<Rightarrow> exn + int" where
  "float_of_int n =
     (let f = round53 n in if 2 ^ 1024 \<le> \<bar>f\<bar> then Inl OverflowError else Inr f)"

definition times_075 :: "int \<Rightarrow> rat" where
  "times_075 f = of_int (round53 (3 * f)) / 4"

section \<open>The prompt composer\<close>

definition DEFAULT_MAIN_QUEST :: pystr where
  "DEFAULT_MAIN_QUEST =
     [0x7EE7, 0x7EED, 0x63A2, 0x7D22]"

definition CONTINUE_TEXT :: pystr where
  "CONTINUE_TEXT =
     [0x7EE7, 0x7EED]"

definition ACTION_HEAD :: pystr where
  "ACTION_HEAD =
     [0x63A5, 0x4E0B, 0x6765, 0xFF0C, 0x4E3B, 0x89D2, 0x51B3, 0x5B9A, 0x81EA, 0x5DF1, 0x884C,
      0x52A8, 0xFF0C, 0x4ED6] @ ascii ''/'' @ [0x5979, 0x60F3, 0xFF1A, 0x0027]"

definition ACTION_TAIL :: pystr where
  "ACTION_TAIL =
     [0x0027, 0x3002]"

definition CHOICE_HEAD :: pystr where
  "CHOICE_HEAD =
     [0x5728, 0x6545, 0x4E8B, 0x7684, 0x6700, 0x65B0, 0x53D1, 0x5C55, 0x4E2D, 0xFF0C, 0x4E3B,
      0x89D2, 0x9009, 0x62E9, 0x4E86, 0x9009, 0x9879, 0xFF1A, 0x0027]"

definition CHOICE_TAIL :: pystr where
  "CHOICE_TAIL =
     [0x0027, 0x3002]"

definition FINALE_HEAD :: pystr where
  "FINALE_HEAD =
     [0x8FD9, 0x662F, 0x6545, 0x4E8B, 0x7684, 0x3010, 0x6700, 0x540E, 0x4E00, 0x5E55, 0x3011,
      0x3002, 0x6545, 0x4E8B, 0x7684, 0x6838, 0x5FC3, 0x4EFB, 0x52A1, 0x662F, 0xFF1A, 0x201C]"

definition FINALE_TAIL :: pystr where
  "FINALE_TAIL =
     [0x201D, 0x3002, 0x000A, 0x8BF7, 0x4F60, 0x5FC5, 0x987B, 0x56F4, 0x7ED5, 0x8FD9, 0x4E2A,
      0x6838, 0x5FC3, 0x4EFB, 0x52A1, 0xFF0C, 0x521B, 0x4F5C, 0x4E00, 0x4E2A, 0x5706, 0x6EE1,
      0x3001, 0x6E05, 0x6670, 0x7684, 0x7ED3, 0x5C40, 0xFF0C, 0x786E, 0x4FDD, 0x4E3B, 0x89D2,
      0x6700, 0x7EC8, 0x5B8C, 0x6210, 0x4E86, 0x8FD9, 0x4E2A, 0x4EFB, 0x52A1, 0xFF0C, 0x5E76,
      0x89E3, 0x51B3, 0x6240, 0x6709, 0x76F8, 0x5173, 0x60AC, 0x5FF5, 0x3002, 0x000A, 0x5728,
      0x4F60, 0x7684] @ ascii ''JSON'' @ [0x56DE, 0x7B54, 0x4E2D, 0xFF0C, 0x0022] @
      ascii ''choices'' @ [0x0022, 0x5B57, 0x6BB5, 0x5FC5, 0x987B, 0x662F, 0x4E00, 0x4E2A,
      0x3010, 0x7A7A, 0x6570, 0x7EC4] @ ascii '' '' @ [0x0060] @ ascii ''[]'' @ [0x0060,
      0x3011, 0xFF0C, 0x56E0, 0x4E3A, 0x6545, 0x4E8B, 0x5DF2, 0x7ECF, 0x7ED3, 0x675F, 0x3002]"

definition STEP_HEAD :: pystr where
  "STEP_HEAD =
     [0x73B0, 0x5728, 0x662F, 0x6545, 0x4E8B, 0x7684, 0x7B2C, 0x3010]"

definition CLIMAX_TAIL :: pystr where
  "CLIMAX_TAIL =
     [0x3011, 0x5E55, 0xFF0C, 0x5267, 0x60C5, 0x5DF2, 0x63A5, 0x8FD1, 0x9AD8, 0x6F6E, 0x3002,
      0x000A, 0x8BF7, 0x521B, 0x4F5C, 0x4E00, 0x6BB5, 0x7D27, 0x5F20, 0x3001, 0x5173, 0x952E,
      0x7684, 0x60C5, 0x8282, 0xFF0C, 0x5C06, 0x6545, 0x4E8B, 0x63A8, 0x5411, 0x9876, 0x70B9,
      0xFF0C, 0x4E3A, 0x6700, 0x7EC8, 0x89E3, 0x51B3, 0x4E3B, 0x7EBF, 0x4EFB, 0x52A1, 0x505A,
      0x51C6, 0x5907, 0x3002]"

definition DEVELOPING_MID :: pystr where
  "DEVELOPING_MID =
     [0x3011, 0x5E55, 0xFF0C, 0x5267, 0x60C5, 0x6B63, 0x5728, 0x53D1, 0x5C55, 0x9636, 0x6BB5,
      0x3002, 0x000A, 0x8BF7, 0x521B, 0x4F5C, 0x4E00, 0x6BB5, 0x627F, 0x4E0A, 0x542F, 0x4E0B,
      0x7684, 0x60C5, 0x8282, 0x3002, 0x6700, 0x91CD, 0x8981, 0x7684, 0x662F, 0xFF0C, 0x8FD9,
      0x4E00, 0x6B65, 0x5FC5, 0x987B, 0x8BA9, 0x4E3B, 0x89D2, 0x5728, 0x5B8C, 0x6210, 0x4E3B,
      0x7EBF, 0x4EFB, 0x52A1, 0xFF1A, 0x201C]"

definition DEVELOPING_TAIL :: pystr where
  "DEVELOPING_TAIL =
     [0x201D] @ ascii '' '' @ [0x7684, 0x9053, 0x8DEF, 0x4E0A, 0x3010, 0x53D6, 0x5F97, 0x660E,
      0x786E, 0x7684, 0x8FDB, 0x5C55, 0x3011, 0x3002, 0x000A, 0x53EF, 0x4EE5, 0x5F15, 0x5165,
      0x4E00, 0x4E2A, 0x5E2E, 0x52A9, 0x89E3, 0x51B3, 0x4E3B, 0x7EBF, 0x7684, 0x7EBF, 0x7D22,
      0xFF0C, 0x6216, 0x8005, 0x514B, 0x670D, 0x4E00, 0x4E2A, 0x901A, 0x5F80, 0x4E3B, 0x7EBF,
      0x7684, 0x5C0F, 0x969C, 0x788D, 0x3002]"

definition CONTEXT_HEAD :: pystr where
  "CONTEXT_HEAD =
     [0x8FD9, 0x662F, 0x5DF2, 0x7ECF, 0x53D1, 0x751F, 0x7684, 0x6545, 0x4E8B, 0x6897, 0x6982,
      0xFF0C, 0x8BF7, 0x4F60, 0x7EED, 0x5199, 0xFF1A, 0x000A, 0x000A]"

definition PART_HEAD :: pystr where
  "PART_HEAD =
     [0x7B2C] @ ascii '' ''"

definition PART_MID :: pystr where
  "PART_MID =
     ascii '' '' @ [0x5E55] @ ascii '': ''"

definition QUEST_DIRECTIVE_HEAD :: pystr where
  "QUEST_DIRECTIVE_HEAD =
     [0x000A, 0x000A] @ ascii ''--- '' @ [0x6838, 0x5FC3, 0x4EFB, 0x52A1, 0x6307, 0x4EE4] @
      ascii '' ('' @ [0x6700, 0x91CD, 0x8981, 0xFF01] @ ascii '') ---'' @ [0x000A, 0x8BF7,
      0x59CB, 0x7EC8, 0x56F4, 0x7ED5, 0x6545, 0x4E8B, 0x4E3B, 0x7EBF, 0xFF1A, 0x201C]"

definition QUEST_DIRECTIVE_TAIL :: pystr where
  "QUEST_DIRECTIVE_TAIL =
     [0x201D, 0x3002, 0x000A] @ ascii ''--- '' @ [0x5F53, 0x524D, 0x9636, 0x6BB5, 0x53D9,
      0x4E8B, 0x6307, 0x4EE4] @ ascii '' ---'' @ [0x000A]"

definition NAMED_IMAGE_HEAD :: pystr where
  "NAMED_IMAGE_HEAD =
     [0x8FD9, 0x662F, 0x4E00, 0x5F20, 0x7528, 0x6237, 0x4E0A, 0x4F20, 0x7684, 0x56FE, 0x7247,
      0xFF0C, 0x8BF7, 0x4EE5, 0x56FE, 0x7247, 0x4E2D, 0x7684, 0x4E3B, 0x8981, 0x7269, 0x4F53,
      0x6216, 0x4EBA, 0x7269, 0x4F5C, 0x4E3A, 0x6545, 0x4E8B, 0x4E3B, 0x89D2, 0xFF0C, 0x5E76,
      0x5C06, 0x4E3B, 0x89D2, 0x547D, 0x540D, 0x4E3A] @ ascii '' '' @ [0x0027]"

definition NAMED_IMAGE_MID :: pystr where
  "NAMED_IMAGE_MID =
     [0x0027, 0x3002, 0x5728] @ ascii '' '' @ [0x0027]"

definition OPENING_MID :: pystr where
  "OPENING_MID =
     [0x0027] @ ascii '' '' @ [0x573A, 0x666F, 0x4E0B, 0xFF0C, 0x4E3A, 0x8FD9, 0x4E2A, 0x4E3B,
      0x89D2, 0x521B, 0x4F5C, 0x4E00, 0x4E2A, 0x5F15, 0x4EBA, 0x5165, 0x80DC, 0x7684, 0x513F,
      0x7AE5, 0x6545, 0x4E8B, 0x5F00, 0x7BC7, 0x3002, 0x8FD9, 0x4E2A, 0x6545, 0x4E8B, 0x7684,
      0x603B, 0x957F, 0x5EA6, 0x9884, 0x8BA1, 0x4E3A, 0x3010]"

definition OPENING_TAIL :: pystr where
  "OPENING_TAIL =
     [0x5E55, 0x3011, 0x3002, 0x8BF7, 0x786E, 0x4FDD, 0x5F00, 0x7BC7, 0x80FD, 0x591F, 0x5EFA,
      0x7ACB, 0x4E00, 0x4E2A, 0x6E05, 0x6670, 0x7684, 0x4E3B, 0x7EBF, 0x4EFB, 0x52A1, 0xFF0C,
      0x5E76, 0x4E3A, 0x540E, 0x7EED, 0x53D1, 0x5C55, 0x7559, 0x4E0B, 0x60AC, 0x5FF5, 0x3002]"

definition IMAGE_ONLY_HEAD :: pystr where
  "IMAGE_ONLY_HEAD =
     [0x8FD9, 0x662F, 0x4E00, 0x5F20, 0x7528, 0x6237, 0x4E0A, 0x4F20, 0x7684, 0x56FE, 0x7247,
      0xFF0C, 0x8BF7, 0x4EE5, 0x56FE, 0x7247, 0x4E2D, 0x7684, 0x4E3B, 0x8981, 0x7269, 0x4F53,
      0x6216, 0x4EBA, 0x7269, 0x4F5C, 0x4E3A, 0x6545, 0x4E8B, 0x4E3B, 0x89D2, 0x3002, 0x5728] @
      ascii '' '' @ [0x0027]"

definition TEXT_HEAD :: pystr where
  "TEXT_HEAD =
     [0x8BF7, 0x4E3A, 0x4E00, 0x4E2A, 0x5173, 0x4E8E, 0x4E3B, 0x89D2] @ ascii '' '' @ [0x0027]"

definition TEXT_MID :: pystr where
  "TEXT_MID =
     [0x0027] @ ascii '' '' @ [0x5728] @ ascii '' '' @ [0x0027]"

definition TEXT_OPENING_MID :: pystr where
  "TEXT_OPENING_MID =
     [0x0027] @ ascii '' '' @ [0x573A, 0x666F, 0x4E0B, 0x7684, 0x513F, 0x7AE5, 0x6545, 0x4E8B,
      0xFF0C, 0x521B, 0x4F5C, 0x4E00, 0x4E2A, 0x5F15, 0x4EBA, 0x5165, 0x80DC, 0x7684, 0x5F00,
      0x7BC7, 0x3002, 0x8FD9, 0x4E2A, 0x6545, 0x4E8B, 0x7684, 0x603B, 0x957F, 0x5EA6, 0x9884,
      0x8BA1, 0x4E3A, 0x3010]"

text \<open>
  The canonical quest line:
  \<^verbatim>\<open>request.story_history[0].main_quest if request.story_history else ...\<close>
\<close>

definition main_quest_line :: "NextStepRequest \<Rightarrow> pystr" where
  "main_quest_line request =
     (case story_history request of
        [] \<Rightarrow> DEFAULT_MAIN_QUEST
      | first # rest \<Rightarrow> main_quest first)"

text \<open>The \<^verbatim>\<open>for choice in last_part.choices\<close> loop with its \<^verbatim>\<open>break\<close>.\<close>

fun find_choice_text :: "pystr \<Rightarrow> StoryChoice list \<Rightarrow> pystr \<Rightarrow> pystr" where
  "find_choice_text cid [] user_choice_text = user_choice_text"
| "find_choice_text cid (choice # rest) user_choice_text =
     (if id_choice choice = cid then text_choice choice
      else find_choice_text cid rest user_choice_text)"

definition user_choice_text :: "NextStepRequest \<Rightarrow> pystr \<Rightarrow> pystr" where
  "user_choice_text request cid =
     (if story_history request \<noteq> []
      then find_choice_text cid (choices (last (story_history request))) CONTINUE_TEXT
      else CONTINUE_TEXT)"

text \<open>
  \<^verbatim>\<open>if request.user_action: ... elif request.choice_id: ...\<close>; both tests are truthiness
  tests, and without either the line stays empty.
\<close>

definition action_description_line :: "NextStepRequest \<Rightarrow> pystr" where
  "action_description_line request =
     (if truthy (user_action request)
      then (case user_action request of
              Some a \<Rightarrow> ACTION_HEAD @ a @ ACTION_TAIL
            | None \<Rightarrow> [])
      else if truthy (choice_id request)
      then (case choice_id request of
              Some c \<Rightarrow> CHOICE_HEAD @ user_choice_text request c @ CHOICE_TAIL
            | None \<Rightarrow> [])
      else [])"

definition finale_guidance :: "pystr \<Rightarrow> pystr" where
  "finale_guidance quest = FINALE_HEAD @ quest @ FINALE_TAIL"

definition climax_guidance :: "int \<Rightarrow> int \<Rightarrow> pystr" where
  "climax_guidance cs ts = STEP_HEAD @ str_int cs @ ascii ''/'' @ str_int ts @ CLIMAX_TAIL"

definition developing_guidance :: "int \<Rightarrow> int \<Rightarrow> pystr \<Rightarrow> pystr" where
  "developing_guidance cs ts quest =
     STEP_HEAD @ str_int cs @ ascii ''/'' @ str_int ts @ DEVELOPING_MID @ quest @ DEVELOPING_TAIL"

text \<open>
  The \<^verbatim>\<open>if is_final_step: ... elif ... >= ... * 0.75: ... else: ...\<close> chain. The
  multiplication is evaluated only when the step is not the final one.
\<close>

definition narrative_guidance :: "NextStepRequest \<Rightarrow> exn + pystr" where
  "narrative_guidance request =
     (if current_step request = total_steps request
      then Inr (finale_guidance (main_quest_line request))
      else (case float_of_int (total_steps request) of
              Inl e \<Rightarrow> Inl e
            | Inr f \<Rightarrow>
                if times_075 f \<le> of_int (current_step request)
                then Inr (climax_guidance (current_step request) (total_steps request))
                else Inr (developing_guidance (current_step request) (total_steps request)
                            (main_quest_line request))))"

text \<open>The \<^verbatim>\<open>for i, part in enumerate(request.story_history)\<close> loop.\<close>

fun story_parts :: "nat \<Rightarrow> StoryResponse list \<Rightarrow> pystr" where
  "story_parts i [] = []"
| "story_parts i (part # rest) =
     PART_HEAD @ str_int (int i + 1) @ PART_MID @ text_story part @ [0x0A] @
     story_parts (Suc i) rest"

definition story_context :: "NextStepRequest \<Rightarrow> pystr" where
  "story_context request = CONTEXT_HEAD @ story_parts 0 (story_history request)"

definition continuation_prompt :: "NextStepRequest \<Rightarrow> pystr \<Rightarrow> pystr" where
  "continuation_prompt request guidance =
     story_context request @ [0x0A] @ action_description_line request @
     QUEST_DIRECTIVE_HEAD @ main_quest_line request @ QUEST_DIRECTIVE_TAIL @ guidance"

text \<open>The opening prompt; an \<^verbatim>\<open>Optional[str]\<close> that is \<^verbatim>\<open>None\<close> formats as \<^verbatim>\<open>None\<close>.\<close>

definition format_optional :: "pystr option \<Rightarrow> pystr" where
  "format_optional x = (case x of None \<Rightarrow> ascii ''None'' | Some s \<Rightarrow> s)"

definition initial_prompt_text :: "StoryStartRequest \<Rightarrow> pystr" where
  "initial_prompt_text request =
     (if truthy (image_data_url request)
      then (if truthy (character request)
            then NAMED_IMAGE_HEAD @ format_optional (character request) @ NAMED_IMAGE_MID @
                 setting request @ OPENING_MID @ str_int (total_steps_start request) @
                 OPENING_TAIL
            else IMAGE_ONLY_HEAD @ setting request @ OPENING_MID @
                 str_int (total_steps_start request) @ OPENING_TAIL)
      else TEXT_HEAD @ format_optional (character request) @ TEXT_MID @ setting request @
           TEXT_OPENING_MID @ str_int (total_steps_start request) @ OPENING_TAIL)"

section \<open>The story progression controller\<close>

text \<open>
  \<^verbatim>\<open>decode_base64_to_image\<close>: what follows the first comma when there is one (44 is the
  comma), handed to the Base64 and image decoders.
\<close>

definition decode_base64_to_image :: "env \<Rightarrow> pystr \<Rightarrow> exn + pil_image" where
  "decode_base64_to_image env base64_string =
     (if 44 \<in> set base64_string
      then b64_image env (tl (dropWhile (\<lambda>c. c \<noteq> 44) base64_string))
      else b64_image env base64_string)"

definition start_story :: "env \<Rightarrow> StoryStartRequest \<Rightarrow> (exn + StoryResponse) \<times> event list" where
  "start_story env request =
     (case (case image_data_url request of
              None \<Rightarrow> Inr None
            | Some u \<Rightarrow>
                if u = [] then Inr None
                else (case decode_base64_to_image env u of
                        Inl e \<Rightarrow> Inl e
                      | Inr im \<Rightarrow> Inr (Some im))) of
        Inl e \<Rightarrow> (Inl e, [])
      | Inr image_input_for_gemini \<Rightarrow>
          (case generate_story_part env (initial_prompt_text request) image_input_for_gemini of
             (Inl e, tr1) \<Rightarrow> (Inl e, tr1)
           | (Inr ai_data, tr1) \<Rightarrow>
               (case final_image_prompt env ai_data of
                  Inl e \<Rightarrow> (Inl e, tr1)
                | Inr prompt \<Rightarrow>
                    (case generate_consistent_image env prompt None image_input_for_gemini of
                       (generated_image_url, tr2) \<Rightarrow>
                         (story_response ai_data generated_image_url
                            (\<lambda>ai. getitem ai (ascii ''main_quest'')),
                          tr1 @ tr2)))))"

definition next_step :: "env \<Rightarrow> NextStepRequest \<Rightarrow> (exn + StoryResponse) \<times> event list" where
  "next_step env request =
     (case narrative_guidance request of
        Inl e \<Rightarrow> (Inl e, [])
      | Inr guidance \<Rightarrow>
          (case generate_story_part env (continuation_prompt request guidance) None of
             (Inl e, tr1) \<Rightarrow> (Inl e, tr1)
           | (Inr generated, tr1) \<Rightarrow>
               (case (if current_step request = total_steps request
                      then setitem generated (ascii ''choices'') (JArray [])
                      else Inr generated) of
                  Inl e \<Rightarrow> (Inl e, tr1)
                | Inr ai_data \<Rightarrow>
                    (case final_image_prompt env ai_data of
                       Inl e \<Rightarrow> (Inl e, tr1)
                     | Inr prompt \<Rightarrow>
                         (case generate_consistent_image env prompt
                                 (previous_image_url request) None of
                            (generated_image_url, tr2) \<Rightarrow>
                              (story_response ai_data generated_image_url
                                 (\<lambda>ai. Inr (JString (main_quest_line request))),
                               tr1 @ tr2))))))"


section \<open>Example collaborators and requests\<close>

text \<open>
  Concrete collaborators, used to run the model: the text capability answers \<open>txt\<close>,
  \<^verbatim>\<open>json.loads\<close> gives \<open>js\<close>, the image capability answers \<open>replies k\<close> at attempt
  \<open>k\<close>, no earlier image file is on disk, and decoding and saving succeed.
\<close>

definition demo_env :: "(exn + pystr option) \<Rightarrow> jval option \<Rightarrow> (nat \<Rightarrow> api_reply) \<Rightarrow> env" where
  "demo_env txt js replies =
     \<lparr>generate_text = (\<lambda>p r. txt), json_loads = (\<lambda>s. js),
      generate_image = (\<lambda>p r k. replies k), path_exists = (\<lambda>p. False),
      open_file = (\<lambda>p. Inl (External 1)), open_bytes = (\<lambda>b. Inr (Image 7)),
      b64_image = (\<lambda>s. Inr (Image 1)), makedirs = None, uuid4 = ascii ''u1'',
      save = (\<lambda>i p. None), BASE_URL = ascii ''http://127.0.0.1:8000'',
      format_value = (\<lambda>v. ascii ''?'')\<rparr>"


text \<open>Three failures; the last is a response without parts.\<close>

definition always_failing :: "nat \<Rightarrow> api_reply" where
  "always_failing k = (if k = 2 then Parts [] else Raises (External k))"

definition first_time :: "nat \<Rightarrow> api_reply" where
  "first_time k = Parts [Some [1, 2, 3]]"

definition demo_step :: StoryResponse where
  "demo_step =
     \<lparr>text_story = ascii ''Mimi walks into the forest.'',
      image_url = Some (ascii ''http://h/images/a.png''),
      choices = [\<lparr>id_choice = ascii ''A'', text_choice = ascii ''follow the river''\<rparr>,
                 \<lparr>id_choice = ascii ''B'', text_choice = ascii ''climb the hill''\<rparr>],
      main_quest = ascii ''find the three acorns''\<rparr>"

definition demo_request ::
  "pystr option \<Rightarrow> pystr option \<Rightarrow> StoryResponse list \<Rightarrow> int \<Rightarrow> int \<Rightarrow> NextStepRequest" where
  "demo_request cid act history cs ts =
     \<lparr>choice_id = cid, user_action = act, story_history = history,
      previous_image_url = Some (ascii ''http://h/images/a.png''),
      current_step = cs, total_steps = ts\<rparr>"


text \<open>A document of the generator, with the given value under \<^verbatim>\<open>choices\<close>.\<close>

definition demo_document :: "jval \<Rightarrow> jval" where
  "demo_document chs =
     JObject [(ascii ''text'', JString (ascii ''Mimi finds a clue.'')),
              (ascii ''image_prompt'', JString (ascii ''a cat by a river'')),
              (ascii ''choices'', chs),
              (ascii ''main_quest'', JString (ascii ''bake a cake''))]"

definition two_choices :: jval where
  "two_choices =
     JArray [JObject [(ascii ''id'', JString (ascii ''A'')), (ascii ''text'', JString (ascii ''go on''))],
             JObject [(ascii ''id'', JString (ascii ''B'')), (ascii ''text'', JString (ascii ''turn back''))]]"

definition demo_start :: StoryStartRequest where
  "demo_start =
     \<lparr>character = Some (ascii ''Mimi''), setting = ascii ''enchanted forest'',
      total_steps_start = 5, image_data_url = None\<rparr>"

section \<open>The image generation client: retries and backoff\<close>

lemma attempts_list: "[0..<max_retries] = [0, 1, 2]"
  by (simp add: max_retries_def upt_rec)

lemma first_inline_data_Inr_iff:
  "(\<exists>d. first_inline_data ps = Inr d) \<longleftrightarrow> (\<exists>d. Some d \<in> set ps)"
  by (induction ps rule: first_inline_data.induct) auto

lemma first_inline_data_none:
  "(\<forall>q \<in> set ps. q = None) \<Longrightarrow> first_inline_data ps = Inl (ValueError NO_IMAGE_DATA)"
  by (induction ps rule: first_inline_data.induct) auto

text \<open>The three rounds of the loop, written out.\<close>

lemma blocking_unfold:
  "blocking_image_generation env p r =
     (case attempt_result (generate_image env p r 0) of
        Inr d \<Rightarrow> (Inr d, [ImageCall p r 0])
      | Inl e0 \<Rightarrow>
          (case attempt_result (generate_image env p r 1) of
             Inr d \<Rightarrow> (Inr d, [ImageCall p r 0, Sleep 2, ImageCall p r 1])
           | Inl e1 \<Rightarrow>
               (case attempt_result (generate_image env p r 2) of
                  Inr d \<Rightarrow>
                    (Inr d, [ImageCall p r 0, Sleep 2, ImageCall p r 1, Sleep 4, ImageCall p r 2])
                | Inl e2 \<Rightarrow>
                    (Inl e2, [ImageCall p r 0, Sleep 2, ImageCall p r 1, Sleep 4, ImageCall p r 2]))))"
  unfolding blocking_image_generation_def attempts_list
  by (simp add: max_retries_def initial_delay_def split: sum.splits)

text \<open>
  Claim C5. In the image generation client an attempt succeeds exactly when the response
  holds at least one inline binary payload; a response with no payload is a failed attempt
  (the \<^verbatim>\<open>ValueError\<close>), and a failed first attempt, whatever its error, is followed by a
  delay and the remaining attempts; when all three attempts fail, the error of the last
  one is what the caller gets, after exactly three calls of the capability.
\<close>

theorem image_client_counts_payloads:
  "((\<exists>d. attempt_result (Parts ps) = Inr d) \<longleftrightarrow> (\<exists>d. Some d \<in> set ps)) \<and>
   ((\<forall>q \<in> set ps. q = None) \<longrightarrow> attempt_result (Parts ps) = Inl (ValueError NO_IMAGE_DATA)) \<and>
   (attempt_result (generate_image env p r 0) = Inl e0 \<longrightarrow>
      blocking_image_generation env p r =
        (case retry_loop env p r [1, 2] of
           (res, tr) \<Rightarrow> (res, ImageCall p r 0 # Sleep 2 # tr))) \<and>
   (attempt_result (generate_image env p r 0) = Inl e0 \<and>
    attempt_result (generate_image env p r 1) = Inl e1 \<and>
    attempt_result (generate_image env p r 2) = Inl e2 \<longrightarrow>
      fst (blocking_image_generation env p r) = Inl e2 \<and>
      image_calls (snd (blocking_image_generation env p r)) = [(p, r, 0), (p, r, 1), (p, r, 2)])"
proof (intro conjI impI)
  show "(\<exists>d. attempt_result (Parts ps) = Inr d) \<longleftrightarrow> (\<exists>d. Some d \<in> set ps)"
    by (simp add: attempt_result_def first_inline_data_Inr_iff)
next
  assume "\<forall>q \<in> set ps. q = None"
  then show "attempt_result (Parts ps) = Inl (ValueError NO_IMAGE_DATA)"
    by (simp add: attempt_result_def first_inline_data_none)
next
  assume "attempt_result (generate_image env p r 0) = Inl e0"
  then show "blocking_image_generation env p r =
        (case retry_loop env p r [1, 2] of
           (res, tr) \<Rightarrow> (res, ImageCall p r 0 # Sleep 2 # tr))"
    unfolding blocking_image_generation_def attempts_list
    by (simp add: max_retries_def initial_delay_def split: sum.splits)
next
  assume a: "attempt_result (generate_image env p r 0) = Inl e0 \<and>
    attempt_result (generate_image env p r 1) = Inl e1 \<and>
    attempt_result (generate_image env p r 2) = Inl e2"
  then show "fst (blocking_image_generation env p r) = Inl e2"
    by (simp add: blocking_unfold)
  from a show "image_calls (snd (blocking_image_generation env p r)) =
      [(p, r, 0), (p, r, 1), (p, r, 2)]"
    by (simp add: blocking_unfold)
qed

theorem image_client_counts_payloads_witness:
  "attempt_result (Parts [None, None]) = Inl (ValueError NO_IMAGE_DATA) \<and>
   fst (blocking_image_generation (demo_env (Inl TypeError) None always_failing) (ascii ''a cat'') None) =
     Inl (ValueError NO_IMAGE_DATA) \<and>
   image_calls (snd (blocking_image_generation (demo_env (Inl TypeError) None always_failing)
       (ascii ''a cat'') None)) =
     [(ascii ''a cat'', None, 0), (ascii ''a cat'', None, 1), (ascii ''a cat'', None, 2)]"
  using image_client_counts_payloads [of "[None, None]"
      "demo_env (Inl TypeError) None always_failing" "ascii ''a cat''" None
      "External 0" "External 1" "ValueError NO_IMAGE_DATA"]
  by (simp add: demo_env_def always_failing_def attempt_result_def blocking_unfold
      max_retries_def initial_delay_def)



section \<open>The continuity image orchestrator: the fallback chain\<close>

text \<open>
  Claim C1. \<open>generate_consistent_image\<close> returns an address on every input (its result
  has no exception branch). Whenever its \<^verbatim>\<open>try\<close> body fails, that is, when resolving the
  reference raises, or the image client gives up (its third attempt failed, or any other
  error left it), or the bytes do not decode, or the directory or the file cannot be
  written, the result is the previous address when there is one (a non-empty string),
  and the fixed placeholder when the previous address is \<^verbatim>\<open>None\<close> or empty.
\<close>

theorem generate_consistent_image_absorbs_failure:
  assumes "resolve_reference env prev init = Inl e
     \<or> (\<exists>r. resolve_reference env prev init = Inr r \<and>
             fst (blocking_image_generation env p r) = Inl e)
     \<or> (\<exists>r d. resolve_reference env prev init = Inr r \<and>
             fst (blocking_image_generation env p r) = Inr d \<and> open_bytes env d = Inl e)
     \<or> (\<exists>r d img. resolve_reference env prev init = Inr r \<and>
             fst (blocking_image_generation env p r) = Inr d \<and> open_bytes env d = Inr img \<and>
             (makedirs env = Some e \<or>
              makedirs env = None \<and>
              save env img (path_join GENERATED_IMAGES (uuid4 env @ ascii ''.png'')) = Some e))"
  shows "fst (generate_consistent_image env p prev init) =
     (case prev of None \<Rightarrow> PLACEHOLDER | Some url \<Rightarrow> if url = [] then PLACEHOLDER else url)"
proof -
  have "\<exists>tr. generate_consistent_image_try env p prev init = (Inl e, tr)"
    using assms
    by (auto simp: generate_consistent_image_try_def Let_def
        split: sum.splits prod.splits option.splits)
  then show ?thesis
    by (auto simp: generate_consistent_image_def image_fallback_def split: option.splits)
qed

theorem generate_consistent_image_absorbs_failure_witness:
  "fst (generate_consistent_image (demo_env (Inl TypeError) None always_failing)
       (ascii ''a cat'') (Some (ascii ''http://h/images/a.png'')) None) =
     ascii ''http://h/images/a.png'' \<and>
   fst (generate_consistent_image (demo_env (Inl TypeError) None always_failing)
       (ascii ''a cat'') None None) = PLACEHOLDER"
  using generate_consistent_image_absorbs_failure [of
      "demo_env (Inl TypeError) None always_failing"
      "Some (ascii ''http://h/images/a.png'')" None "ValueError NO_IMAGE_DATA" "ascii ''a cat''"]
    generate_consistent_image_absorbs_failure [of
      "demo_env (Inl TypeError) None always_failing"
      None None "ValueError NO_IMAGE_DATA" "ascii ''a cat''"]
  by (simp add: demo_env_def always_failing_def attempt_result_def resolve_reference_def
      blocking_unfold ascii_def Let_def)

section \<open>What a handler that returns a step went through\<close>

text \<open>
  The lemmas of this section read the handlers backwards: from a returned step, or from
  an image call in the trace, to the results of the stages before it.
\<close>

lemma image_calls_append: "image_calls (a @ b) = image_calls a @ image_calls b"
  by (induction a rule: image_calls.induct) simp_all

lemma blocking_calls_prompt:
  "blocking_image_generation env p r = (res, tr) \<Longrightarrow> (q, r', k) \<in> set (image_calls tr) \<Longrightarrow> q = p"
  by (auto simp: blocking_unfold split: sum.splits)

lemma generate_consistent_image_calls_prompt:
  "(q, r, k) \<in> set (image_calls (snd (generate_consistent_image env p prev init))) \<Longrightarrow> q = p"
  by (auto simp: generate_consistent_image_def generate_consistent_image_try_def Let_def
      image_calls_append
      split: sum.splits prod.splits option.splits dest: blocking_calls_prompt)

lemma generate_story_part_calls:
  "image_calls (snd (generate_story_part env p img)) = []"
  by (auto simp: generate_story_part_def split: sum.splits option.splits exn.splits)

lemma generate_story_part_calls':
  "generate_story_part env p img = (res, tr) \<Longrightarrow> image_calls tr = []"
  using generate_story_part_calls [of env p img] by simp

lemma generate_consistent_image_calls_prompt':
  "generate_consistent_image env p prev init = (url, tr) \<Longrightarrow>
     (q, r, k) \<in> set (image_calls tr) \<Longrightarrow> q = p"
  using generate_consistent_image_calls_prompt [of q r k env p prev init] by simp

lemma keys_distinct:
  "ascii ''image_prompt'' \<noteq> ascii ''choices''"
  "ascii ''text'' \<noteq> ascii ''choices''"
  by (simp_all add: ascii_def)

lemma getitem_setitem_same:
  "setitem doc k x = Inr ai \<Longrightarrow> getitem ai k = Inr x"
  by (auto simp: setitem_def getitem_def update_conv' split: jval.splits)

lemma getitem_setitem_other:
  "setitem doc k x = Inr ai \<Longrightarrow> k' \<noteq> k \<Longrightarrow> getitem ai k' = getitem doc k'"
  by (auto simp: setitem_def getitem_def update_conv' split: jval.splits)

lemma story_response_Inr:
  "story_response ai url q = Inr resp \<Longrightarrow>
     \<exists>t cs items chs m. getitem ai (ascii ''text'') = Inr (JString t) \<and>
       getitem ai (ascii ''choices'') = Inr cs \<and> iter_values cs = Inr items \<and>
       make_choices items = Inr chs \<and> q ai = Inr (JString m) \<and>
       resp = \<lparr>text_story = t, image_url = Some url, choices = chs, main_quest = m\<rparr>"
  by (auto simp: story_response_def split: sum.splits jval.splits)

lemma next_step_Inr:
  assumes "next_step env req = (Inr resp, tr)"
  shows "\<exists>g doc tr1 ai prompt url tr2.
     narrative_guidance req = Inr g \<and>
     generate_story_part env (continuation_prompt req g) None = (Inr doc, tr1) \<and>
     (if current_step req = total_steps req then setitem doc (ascii ''choices'') (JArray [])
      else Inr doc) = Inr ai \<and>
     final_image_prompt env ai = Inr prompt \<and>
     generate_consistent_image env prompt (previous_image_url req) None = (url, tr2) \<and>
     story_response ai url (\<lambda>ai. Inr (JString (main_quest_line req))) = Inr resp \<and>
     tr = tr1 @ tr2"
  using assms
  by (fastforce simp: next_step_def split: sum.splits prod.splits if_splits)

lemma start_story_Inr:
  assumes "start_story env req = (Inr resp, tr)"
  shows "\<exists>img doc tr1 prompt url tr2.
     generate_story_part env (initial_prompt_text req) img = (Inr doc, tr1) \<and>
     final_image_prompt env doc = Inr prompt \<and>
     generate_consistent_image env prompt None img = (url, tr2) \<and>
     story_response doc url (\<lambda>ai. getitem ai (ascii ''main_quest'')) = Inr resp \<and>
     tr = tr1 @ tr2"
  using assms
  by (fastforce simp: start_story_def split: sum.splits prod.splits if_splits option.splits)

lemma next_step_image_calls:
  assumes "(p, r, k) \<in> set (image_calls (snd (next_step env req)))"
  shows "\<exists>g doc tr1 ai. narrative_guidance req = Inr g \<and>
     generate_story_part env (continuation_prompt req g) None = (Inr doc, tr1) \<and>
     (if current_step req = total_steps req then setitem doc (ascii ''choices'') (JArray [])
      else Inr doc) = Inr ai \<and>
     final_image_prompt env ai = Inr p"
  using assms
  by (fastforce simp: next_step_def image_calls_append
      split: sum.splits prod.splits if_splits
      dest: generate_story_part_calls' generate_consistent_image_calls_prompt')

lemma start_story_image_calls:
  assumes "(p, r, k) \<in> set (image_calls (snd (start_story env req)))"
  shows "\<exists>img doc tr1. generate_story_part env (initial_prompt_text req) img = (Inr doc, tr1) \<and>
     final_image_prompt env doc = Inr p"
  using assms
  by (fastforce simp: start_story_def image_calls_append
      split: sum.splits prod.splits if_splits option.splits
      dest: generate_story_part_calls' generate_consistent_image_calls_prompt')

lemma final_image_prompt_Inr:
  "final_image_prompt env ai = Inr p \<Longrightarrow>
     \<exists>d. getitem ai (ascii ''image_prompt'') = Inr d \<and>
         p = IMAGE_CONSISTENCY_RULE @ ascii '' '' @ format_str env d"
  by (auto simp: final_image_prompt_def split: sum.splits)

section \<open>Exactness of the phase test\<close>

text \<open>
  The phase test is exact while three times the step count fits the 53 bits of a double.
\<close>

lemma bit_length_le: "n < 2 ^ m \<Longrightarrow> bit_length n \<le> m"
proof (induction m arbitrary: n)
  case 0
  then show ?case by (simp add: bit_length.simps)
next
  case (Suc m)
  show ?case
  proof (cases "n = 0")
    case True
    then show ?thesis by (simp add: bit_length.simps)
  next
    case False
    from Suc.prems have "n div 2 < 2 ^ m" by simp
    then have "bit_length (n div 2) \<le> m" by (rule Suc.IH)
    with False show ?thesis by (subst bit_length.simps) simp
  qed
qed

lemma round53_exact: "\<bar>n\<bar> < 2 ^ 53 \<Longrightarrow> round53 n = n"
proof -
  assume "\<bar>n\<bar> < 2 ^ 53"
  then have "nat \<bar>n\<bar> < 2 ^ 53" by (simp add: nat_less_iff)
  then have "bit_length (nat \<bar>n\<bar>) \<le> 53" by (rule bit_length_le)
  then show ?thesis by (simp add: round53_def Let_def)
qed

lemma phase_test_exact:
  assumes "0 \<le> ts" "3 * ts < 2 ^ 53"
  shows "float_of_int ts = Inr ts" "times_075 ts = 3 / 4 * of_int ts"
proof -
  from assms have "\<bar>ts\<bar> < 2 ^ 53" by simp
  then have r: "round53 ts = ts" by (rule round53_exact)
  from assms have "\<bar>ts\<bar> < 2 ^ 1024" by (simp add: power_strict_increasing_iff)
  with r show "float_of_int ts = Inr ts" by (simp add: float_of_int_def Let_def)
  from assms have "\<bar>3 * ts\<bar> < 2 ^ 53" by simp
  then have "round53 (3 * ts) = 3 * ts" by (rule round53_exact)
  then show "times_075 ts = 3 / 4 * of_int ts" by (simp add: times_075_def)
qed

lemma guidance_distinct:
  "finale_guidance q \<noteq> climax_guidance cs ts"
  "finale_guidance q \<noteq> developing_guidance cs ts q'"
  "climax_guidance cs ts \<noteq> developing_guidance cs ts q'"
  by (simp_all add: finale_guidance_def climax_guidance_def developing_guidance_def
      FINALE_HEAD_def STEP_HEAD_def CLIMAX_TAIL_def DEVELOPING_MID_def)

section \<open>Runs with the example collaborators\<close>

text \<open>
  The two handlers run with the example collaborators: one text call, one image call that
  succeeds at once, one file saved.
\<close>

lemma demo_next_step:
  assumes "narrative_guidance req = Inr g"
  shows "next_step (demo_env (Inr (Some t)) (Some (demo_document chs)) first_time) req =
     (story_response
        (demo_document (if current_step req = total_steps req then JArray [] else chs))
        (ascii ''http://127.0.0.1:8000/images/u1.png'')
        (\<lambda>ai. Inr (JString (main_quest_line req))),
      [TextCall (continuation_prompt req g) None,
       ImageCall (IMAGE_CONSISTENCY_RULE @ ascii '' a cat by a river'') None 0,
       Saved (ascii ''generated_images/u1.png'')])"
  using assms
  by (simp add: next_step_def generate_story_part_def demo_env_def demo_document_def
      setitem_def getitem_def final_image_prompt_def format_str_def
      generate_consistent_image_def generate_consistent_image_try_def resolve_reference_def
      blocking_unfold first_time_def attempt_result_def path_join_def GENERATED_IMAGES_def
      ascii_def Let_def split: option.splits)

lemma demo_start_story:
  "start_story (demo_env (Inr (Some t)) (Some (demo_document chs)) first_time) demo_start =
     (story_response (demo_document chs) (ascii ''http://127.0.0.1:8000/images/u1.png'')
        (\<lambda>ai. getitem ai (ascii ''main_quest'')),
      [TextCall (initial_prompt_text demo_start) None,
       ImageCall (IMAGE_CONSISTENCY_RULE @ ascii '' a cat by a river'') None 0,
       Saved (ascii ''generated_images/u1.png'')])"
  by (simp add: start_story_def demo_start_def generate_story_part_def demo_env_def
      demo_document_def getitem_def final_image_prompt_def format_str_def
      generate_consistent_image_def generate_consistent_image_try_def resolve_reference_def
      blocking_unfold first_time_def attempt_result_def path_join_def GENERATED_IMAGES_def
      ascii_def Let_def)

lemma demo_guidance:
  "narrative_guidance (demo_request cid act h 1 5) =
     Inr (developing_guidance 1 5 (main_quest_line (demo_request cid act h 1 5)))"
  "narrative_guidance (demo_request cid act h 5 5) =
     Inr (finale_guidance (main_quest_line (demo_request cid act h 5 5)))"
  by (simp_all add: narrative_guidance_def demo_request_def float_of_int_def times_075_def
      round53_exact Let_def)

lemma demo_story_response:
  "story_response (demo_document (JArray [])) url (\<lambda>ai. Inr (JString m)) =
     Inr \<lparr>text_story = ascii ''Mimi finds a clue.'', image_url = Some url, choices = [],
          main_quest = m\<rparr>"
  "story_response (demo_document two_choices) url (\<lambda>ai. Inr (JString m)) =
     Inr \<lparr>text_story = ascii ''Mimi finds a clue.'', image_url = Some url,
          choices = [\<lparr>id_choice = ascii ''A'', text_choice = ascii ''go on''\<rparr>,
                     \<lparr>id_choice = ascii ''B'', text_choice = ascii ''turn back''\<rparr>],
          main_quest = m\<rparr>"
  by (simp_all add: story_response_def demo_document_def two_choices_def getitem_def
      iter_values_def make_choice_def ascii_def)

lemma demo_start_response:
  "story_response (demo_document two_choices) url (\<lambda>ai. getitem ai (ascii ''main_quest'')) =
     Inr \<lparr>text_story = ascii ''Mimi finds a clue.'', image_url = Some url,
          choices = [\<lparr>id_choice = ascii ''A'', text_choice = ascii ''go on''\<rparr>,
                     \<lparr>id_choice = ascii ''B'', text_choice = ascii ''turn back''\<rparr>],
          main_quest = ascii ''bake a cake''\<rparr>"
  by (simp add: story_response_def demo_document_def two_choices_def getitem_def
      iter_values_def make_choice_def ascii_def)





section \<open>The returned step\<close>

text \<open>
  Claim C3. Whenever \<open>next_step\<close> returns a step for a request with a non-empty history,
  the main quest of that step is the main quest of the first step of the history, whatever
  the generator put under \<^verbatim>\<open>main_quest\<close>.
\<close>

theorem main_quest_is_overridden:
  assumes "next_step env req = (Inr resp, tr)" and "story_history req = first # rest"
  shows "main_quest resp = main_quest first"
proof -
  from next_step_Inr [OF assms(1)] obtain ai url where
    "story_response ai url (\<lambda>ai. Inr (JString (main_quest_line req))) = Inr resp"
    by blast
  from story_response_Inr [OF this] have "main_quest resp = main_quest_line req"
    by auto
  with assms(2) show ?thesis by (simp add: main_quest_line_def)
qed

text \<open>
  A run: the generator answers the quest \<^verbatim>\<open>bake a cake\<close>, the returned step carries the
  quest of the first step of the history.
\<close>

theorem main_quest_is_overridden_witness:
  "fst (next_step (demo_env (Inr (Some (ascii ''{}''))) (Some (demo_document two_choices)) first_time)
          (demo_request (Some (ascii ''A'')) None [demo_step] 1 5)) =
     Inr \<lparr>text_story = ascii ''Mimi finds a clue.'',
          image_url = Some (ascii ''http://127.0.0.1:8000/images/u1.png''),
          choices = [\<lparr>id_choice = ascii ''A'', text_choice = ascii ''go on''\<rparr>,
                     \<lparr>id_choice = ascii ''B'', text_choice = ascii ''turn back''\<rparr>],
          main_quest = main_quest demo_step\<rparr> \<and>
   getitem (demo_document two_choices) (ascii ''main_quest'') = Inr (JString (ascii ''bake a cake'')) \<and>
   main_quest demo_step = ascii ''find the three acorns''"
proof -
  let ?env = "demo_env (Inr (Some (ascii ''{}''))) (Some (demo_document two_choices)) first_time"
  let ?req = "demo_request (Some (ascii ''A'')) None [demo_step] 1 5"
  let ?resp = "\<lparr>text_story = ascii ''Mimi finds a clue.'',
          image_url = Some (ascii ''http://127.0.0.1:8000/images/u1.png''),
          choices = [\<lparr>id_choice = ascii ''A'', text_choice = ascii ''go on''\<rparr>,
                     \<lparr>id_choice = ascii ''B'', text_choice = ascii ''turn back''\<rparr>],
          main_quest = main_quest_line ?req\<rparr>"
  have h: "story_history ?req = demo_step # []"
    by (simp add: demo_request_def)
  have n: "current_step ?req \<noteq> total_steps ?req"
    by (simp add: demo_request_def)
  have r: "next_step ?env ?req = (Inr ?resp, snd (next_step ?env ?req))"
    unfolding demo_next_step [OF demo_guidance(1)] using n
    by (simp add: demo_story_response)
  from main_quest_is_overridden [OF r h] r show ?thesis
    by (simp add: demo_document_def getitem_def demo_step_def ascii_def prod_eq_iff)
qed

text \<open>
  Claim C2, as the code has it. A step returned by \<open>next_step\<close> for a request with
  \<open>current_step = total_steps\<close> has no choices, whatever the generator returned. In every
  other returned step (an advance before the last step, and the opening step of
  \<open>start_story\<close>) the choices are those of the generator, one \<open>StoryChoice\<close> for each
  element of its \<^verbatim>\<open>choices\<close>: nothing makes that list non-empty.
\<close>

theorem final_step_has_no_choices:
  "(next_step env req = (Inr resp, tr) \<and> current_step req = total_steps req \<longrightarrow>
      choices resp = []) \<and>
   (next_step env req = (Inr resp, tr) \<and> current_step req \<noteq> total_steps req \<longrightarrow>
      (\<exists>g doc tr1 v items.
         narrative_guidance req = Inr g \<and>
         generate_story_part env (continuation_prompt req g) None = (Inr doc, tr1) \<and>
         getitem doc (ascii ''choices'') = Inr v \<and> iter_values v = Inr items \<and>
         make_choices items = Inr (choices resp))) \<and>
   (start_story env sreq = (Inr resp', tr') \<longrightarrow>
      (\<exists>img doc tr1 v items.
         generate_story_part env (initial_prompt_text sreq) img = (Inr doc, tr1) \<and>
         getitem doc (ascii ''choices'') = Inr v \<and> iter_values v = Inr items \<and>
         make_choices items = Inr (choices resp')))"
proof (intro conjI impI)
  assume a: "next_step env req = (Inr resp, tr) \<and> current_step req = total_steps req"
  from next_step_Inr [of env req resp tr] a obtain doc ai url where
    s: "setitem doc (ascii ''choices'') (JArray []) = Inr ai" and
    r: "story_response ai url (\<lambda>ai. Inr (JString (main_quest_line req))) = Inr resp"
    by auto
  from getitem_setitem_same [OF s] story_response_Inr [OF r]
  show "choices resp = []" by (auto simp: iter_values_def)
next
  assume a: "next_step env req = (Inr resp, tr) \<and> current_step req \<noteq> total_steps req"
  from next_step_Inr [of env req resp tr] a obtain g doc tr1 url where
    g: "narrative_guidance req = Inr g"
      "generate_story_part env (continuation_prompt req g) None = (Inr doc, tr1)" and
    r: "story_response doc url (\<lambda>ai. Inr (JString (main_quest_line req))) = Inr resp"
    by auto
  from story_response_Inr [OF r] obtain v items where
    "getitem doc (ascii ''choices'') = Inr v" "iter_values v = Inr items"
    "make_choices items = Inr (choices resp)"
    by auto
  with g show "\<exists>g doc tr1 v items.
         narrative_guidance req = Inr g \<and>
         generate_story_part env (continuation_prompt req g) None = (Inr doc, tr1) \<and>
         getitem doc (ascii ''choices'') = Inr v \<and> iter_values v = Inr items \<and>
         make_choices items = Inr (choices resp)"
    by blast
next
  assume a: "start_story env sreq = (Inr resp', tr')"
  from start_story_Inr [OF a] obtain img doc tr1 url where
    g: "generate_story_part env (initial_prompt_text sreq) img = (Inr doc, tr1)" and
    r: "story_response doc url (\<lambda>ai. getitem ai (ascii ''main_quest'')) = Inr resp'"
    by auto
  from story_response_Inr [OF r] obtain v items where
    "getitem doc (ascii ''choices'') = Inr v" "iter_values v = Inr items"
    "make_choices items = Inr (choices resp')"
    by auto
  with g show "\<exists>img doc tr1 v items.
         generate_story_part env (initial_prompt_text sreq) img = (Inr doc, tr1) \<and>
         getitem doc (ascii ''choices'') = Inr v \<and> iter_values v = Inr items \<and>
         make_choices items = Inr (choices resp')"
    by blast
qed

text \<open>
  Runs: a last step where the generator offers two choices and the step has none; a first
  of five steps and an opening step that carry the generator's two choices.
\<close>

theorem final_step_has_no_choices_witness:
  "map_sum id choices
     (fst (next_step (demo_env (Inr (Some (ascii ''{}''))) (Some (demo_document two_choices)) first_time)
          (demo_request (Some (ascii ''A'')) None [demo_step] 5 5))) = Inr [] \<and>
   (\<exists>g doc tr1 v items.
      narrative_guidance (demo_request (Some (ascii ''A'')) None [demo_step] 1 5) = Inr g \<and>
      generate_story_part
        (demo_env (Inr (Some (ascii ''{}''))) (Some (demo_document two_choices)) first_time)
        (continuation_prompt (demo_request (Some (ascii ''A'')) None [demo_step] 1 5) g) None =
        (Inr doc, tr1) \<and>
      getitem doc (ascii ''choices'') = Inr v \<and> iter_values v = Inr items \<and>
      make_choices items =
        Inr [\<lparr>id_choice = ascii ''A'', text_choice = ascii ''go on''\<rparr>,
             \<lparr>id_choice = ascii ''B'', text_choice = ascii ''turn back''\<rparr>]) \<and>
   (\<exists>img doc tr1 v items.
      generate_story_part
        (demo_env (Inr (Some (ascii ''{}''))) (Some (demo_document two_choices)) first_time)
        (initial_prompt_text demo_start) img = (Inr doc, tr1) \<and>
      getitem doc (ascii ''choices'') = Inr v \<and> iter_values v = Inr items \<and>
      make_choices items =
        Inr [\<lparr>id_choice = ascii ''A'', text_choice = ascii ''go on''\<rparr>,
             \<lparr>id_choice = ascii ''B'', text_choice = ascii ''turn back''\<rparr>])"
proof -
  let ?env = "demo_env (Inr (Some (ascii ''{}''))) (Some (demo_document two_choices)) first_time"
  let ?last = "demo_request (Some (ascii ''A'')) None [demo_step] 5 5"
  let ?mid = "demo_request (Some (ascii ''A'')) None [demo_step] 1 5"
  let ?two = "[\<lparr>id_choice = ascii ''A'', text_choice = ascii ''go on''\<rparr>,
               \<lparr>id_choice = ascii ''B'', text_choice = ascii ''turn back''\<rparr>]"
  let ?r1 = "\<lparr>text_story = ascii ''Mimi finds a clue.'',
          image_url = Some (ascii ''http://127.0.0.1:8000/images/u1.png''),
          choices = [], main_quest = main_quest_line ?last\<rparr>"
  let ?r2 = "\<lparr>text_story = ascii ''Mimi finds a clue.'',
          image_url = Some (ascii ''http://127.0.0.1:8000/images/u1.png''),
          choices = ?two, main_quest = main_quest_line ?mid\<rparr>"
  let ?r3 = "\<lparr>text_story = ascii ''Mimi finds a clue.'',
          image_url = Some (ascii ''http://127.0.0.1:8000/images/u1.png''),
          choices = ?two, main_quest = ascii ''bake a cake''\<rparr>"
  have c1: "current_step ?last = total_steps ?last"
    by (simp add: demo_request_def)
  have c2: "current_step ?mid \<noteq> total_steps ?mid"
    by (simp add: demo_request_def)
  have n1: "next_step ?env ?last = (Inr ?r1, snd (next_step ?env ?last))"
    unfolding demo_next_step [OF demo_guidance(2)] using c1
    by (simp add: demo_story_response)
  have n2: "next_step ?env ?mid = (Inr ?r2, snd (next_step ?env ?mid))"
    unfolding demo_next_step [OF demo_guidance(1)] using c2
    by (simp add: demo_story_response)
  have n3: "start_story ?env demo_start = (Inr ?r3, snd (start_story ?env demo_start))"
    unfolding demo_start_story by (simp add: demo_start_response)
  from final_step_has_no_choices [of ?env ?last ?r1 "snd (next_step ?env ?last)"] n1 c1
  have a: "map_sum id choices (fst (next_step ?env ?last)) = Inr []"
    by (simp add: prod_eq_iff)
  from final_step_has_no_choices [of ?env ?mid ?r2 "snd (next_step ?env ?mid)"
      demo_start ?r3 "snd (start_story ?env demo_start)"] n2 c2 n3
  have b: "(\<exists>g doc tr1 v items.
      narrative_guidance ?mid = Inr g \<and>
      generate_story_part ?env (continuation_prompt ?mid g) None = (Inr doc, tr1) \<and>
      getitem doc (ascii ''choices'') = Inr v \<and> iter_values v = Inr items \<and>
      make_choices items = Inr ?two) \<and>
   (\<exists>img doc tr1 v items.
      generate_story_part ?env (initial_prompt_text demo_start) img = (Inr doc, tr1) \<and>
      getitem doc (ascii ''choices'') = Inr v \<and> iter_values v = Inr items \<and>
      make_choices items = Inr ?two)"
    by simp
  from a b show ?thesis by blast
qed

text \<open>
  Claim C2 as stated fails from right to left: at step 1 of 5 the generator returns an empty
  \<^verbatim>\<open>choices\<close> list, and the returned step has no choices although it is not the last.
\<close>

theorem empty_choices_before_the_end:
  "current_step (demo_request (Some (ascii ''A'')) None [demo_step] 1 5) \<noteq>
     total_steps (demo_request (Some (ascii ''A'')) None [demo_step] 1 5) \<and>
   fst (next_step (demo_env (Inr (Some (ascii ''{}''))) (Some (demo_document (JArray []))) first_time)
          (demo_request (Some (ascii ''A'')) None [demo_step] 1 5)) =
     Inr \<lparr>text_story = ascii ''Mimi finds a clue.'',
          image_url = Some (ascii ''http://127.0.0.1:8000/images/u1.png''),
          choices = [], main_quest = ascii ''find the three acorns''\<rparr>"
  by (simp add: demo_next_step [OF demo_guidance(1)] demo_story_response)
    (simp add: demo_request_def main_quest_line_def demo_step_def)

section \<open>The image prompt\<close>

text \<open>
  Claim C9. Every call of the image capability made by \<open>next_step\<close> or \<open>start_story\<close>
  carries the prompt \<open>IMAGE_CONSISTENCY_RULE\<close>, one space, and the value the generator
  returned under \<^verbatim>\<open>image_prompt\<close> in that call, formatted as an f-string formats it (a
  string as it is). The directive is the same constant in both handlers and at every step.
\<close>

theorem image_prompt_carries_directive:
  "((p, r, k) \<in> set (image_calls (snd (next_step env req))) \<longrightarrow>
      (\<exists>g doc tr1 d.
         narrative_guidance req = Inr g \<and>
         generate_story_part env (continuation_prompt req g) None = (Inr doc, tr1) \<and>
         getitem doc (ascii ''image_prompt'') = Inr d \<and>
         p = IMAGE_CONSISTENCY_RULE @ ascii '' '' @ format_str env d)) \<and>
   ((p, r, k) \<in> set (image_calls (snd (start_story env sreq))) \<longrightarrow>
      (\<exists>img doc tr1 d.
         generate_story_part env (initial_prompt_text sreq) img = (Inr doc, tr1) \<and>
         getitem doc (ascii ''image_prompt'') = Inr d \<and>
         p = IMAGE_CONSISTENCY_RULE @ ascii '' '' @ format_str env d)) \<and>
   format_str env (JString s) = s"
proof (intro conjI impI)
  assume "(p, r, k) \<in> set (image_calls (snd (next_step env req)))"
  from next_step_image_calls [OF this] obtain g doc tr1 ai where
    g: "narrative_guidance req = Inr g"
      "generate_story_part env (continuation_prompt req g) None = (Inr doc, tr1)" and
    ai: "(if current_step req = total_steps req
          then setitem doc (ascii ''choices'') (JArray []) else Inr doc) = Inr ai" and
    f: "final_image_prompt env ai = Inr p"
    by blast
  from final_image_prompt_Inr [OF f] obtain d where
    d: "getitem ai (ascii ''image_prompt'') = Inr d"
      "p = IMAGE_CONSISTENCY_RULE @ ascii '' '' @ format_str env d"
    by blast
  have "getitem ai (ascii ''image_prompt'') = getitem doc (ascii ''image_prompt'')"
  proof (cases "current_step req = total_steps req")
    case True
    with ai have "setitem doc (ascii ''choices'') (JArray []) = Inr ai" by simp
    then show ?thesis by (rule getitem_setitem_other) (rule keys_distinct)
  next
    case False
    with ai show ?thesis by simp
  qed
  with d have "getitem doc (ascii ''image_prompt'') = Inr d" by simp
  with g d(2) show "\<exists>g doc tr1 d.
         narrative_guidance req = Inr g \<and>
         generate_story_part env (continuation_prompt req g) None = (Inr doc, tr1) \<and>
         getitem doc (ascii ''image_prompt'') = Inr d \<and>
         p = IMAGE_CONSISTENCY_RULE @ ascii '' '' @ format_str env d"
    by blast
next
  assume "(p, r, k) \<in> set (image_calls (snd (start_story env sreq)))"
  from start_story_image_calls [OF this] obtain img doc tr1 where
    g: "generate_story_part env (initial_prompt_text sreq) img = (Inr doc, tr1)" and
    f: "final_image_prompt env doc = Inr p"
    by blast
  from final_image_prompt_Inr [OF f] g
  show "\<exists>img doc tr1 d.
         generate_story_part env (initial_prompt_text sreq) img = (Inr doc, tr1) \<and>
         getitem doc (ascii ''image_prompt'') = Inr d \<and>
         p = IMAGE_CONSISTENCY_RULE @ ascii '' '' @ format_str env d"
    by blast
next
  show "format_str env (JString s) = s" by (simp add: format_str_def)
qed

text \<open>
  Runs of both handlers: the single image call has the directive, a space and the
  generator's description.
\<close>

theorem image_prompt_carries_directive_witness:
  "image_calls (snd (next_step
       (demo_env (Inr (Some (ascii ''{}''))) (Some (demo_document two_choices)) first_time)
       (demo_request (Some (ascii ''A'')) None [demo_step] 1 5))) =
     [(IMAGE_CONSISTENCY_RULE @ ascii '' '' @ ascii ''a cat by a river'', None, 0)] \<and>
   image_calls (snd (start_story
       (demo_env (Inr (Some (ascii ''{}''))) (Some (demo_document two_choices)) first_time)
       demo_start)) =
     [(IMAGE_CONSISTENCY_RULE @ ascii '' '' @ ascii ''a cat by a river'', None, 0)] \<and>
   getitem (demo_document two_choices) (ascii ''image_prompt'') =
     Inr (JString (ascii ''a cat by a river'')) \<and>
   (\<exists>g doc tr1 d.
      narrative_guidance (demo_request (Some (ascii ''A'')) None [demo_step] 1 5) = Inr g \<and>
      generate_story_part
        (demo_env (Inr (Some (ascii ''{}''))) (Some (demo_document two_choices)) first_time)
        (continuation_prompt (demo_request (Some (ascii ''A'')) None [demo_step] 1 5) g) None =
        (Inr doc, tr1) \<and>
      getitem doc (ascii ''image_prompt'') = Inr d \<and>
      IMAGE_CONSISTENCY_RULE @ ascii '' '' @ ascii ''a cat by a river'' =
        IMAGE_CONSISTENCY_RULE @ ascii '' '' @
        format_str (demo_env (Inr (Some (ascii ''{}''))) (Some (demo_document two_choices)) first_time) d) \<and>
   (\<exists>img doc tr1 d.
      generate_story_part
        (demo_env (Inr (Some (ascii ''{}''))) (Some (demo_document two_choices)) first_time)
        (initial_prompt_text demo_start) img = (Inr doc, tr1) \<and>
      getitem doc (ascii ''image_prompt'') = Inr d \<and>
      IMAGE_CONSISTENCY_RULE @ ascii '' '' @ ascii ''a cat by a river'' =
        IMAGE_CONSISTENCY_RULE @ ascii '' '' @
        format_str (demo_env (Inr (Some (ascii ''{}''))) (Some (demo_document two_choices)) first_time) d)"
proof -
  let ?env = "demo_env (Inr (Some (ascii ''{}''))) (Some (demo_document two_choices)) first_time"
  let ?req = "demo_request (Some (ascii ''A'')) None [demo_step] 1 5"
  let ?p = "IMAGE_CONSISTENCY_RULE @ ascii '' '' @ ascii ''a cat by a river''"
  have c: "image_calls (snd (next_step ?env ?req)) = [(?p, None, 0)]"
    by (simp add: demo_next_step [OF demo_guidance(1)] ascii_def)
  have s: "image_calls (snd (start_story ?env demo_start)) = [(?p, None, 0)]"
    by (simp add: demo_start_story ascii_def)
  have d: "getitem (demo_document two_choices) (ascii ''image_prompt'') =
     Inr (JString (ascii ''a cat by a river''))"
    by (simp add: demo_document_def getitem_def ascii_def)
  from c s have "(?p, None, 0) \<in> set (image_calls (snd (next_step ?env ?req)))"
    "(?p, None, 0) \<in> set (image_calls (snd (start_story ?env demo_start)))"
    by simp_all
  with image_prompt_carries_directive [of ?p None 0 ?env ?req demo_start] c s d show ?thesis
    by blast
qed

section \<open>Validation of the advance request\<close>




section \<open>The narrative phase\<close>

text \<open>
  Claim C7, within the range where the double arithmetic is exact. For
  \<open>1 \<le> current_step \<le> total_steps\<close> and \<open>3 * total_steps < 2 ^ 53\<close> the guidance is the
  finale text at the last step, the climax text when
  \<open>0.75 * total_steps \<le> current_step < total_steps\<close>, and the developing text when
  \<open>current_step < 0.75 * total_steps\<close>; the three texts differ from one another.
\<close>

theorem phase_follows_thresholds:
  assumes "1 \<le> current_step req" and "current_step req \<le> total_steps req"
    and "3 * total_steps req < 2 ^ 53"
  shows "(current_step req = total_steps req \<longrightarrow>
            narrative_guidance req = Inr (finale_guidance (main_quest_line req))) \<and>
         (3 / 4 * rat_of_int (total_steps req) \<le> rat_of_int (current_step req) \<and>
          current_step req < total_steps req \<longrightarrow>
            narrative_guidance req =
              Inr (climax_guidance (current_step req) (total_steps req))) \<and>
         (rat_of_int (current_step req) < 3 / 4 * rat_of_int (total_steps req) \<longrightarrow>
            narrative_guidance req =
              Inr (developing_guidance (current_step req) (total_steps req)
                     (main_quest_line req))) \<and>
         finale_guidance (main_quest_line req) \<noteq>
           climax_guidance (current_step req) (total_steps req) \<and>
         finale_guidance (main_quest_line req) \<noteq>
           developing_guidance (current_step req) (total_steps req) (main_quest_line req) \<and>
         climax_guidance (current_step req) (total_steps req) \<noteq>
           developing_guidance (current_step req) (total_steps req) (main_quest_line req)"
proof -
  from assms have ts: "0 \<le> total_steps req" by simp
  note ex = phase_test_exact [OF ts assms(3)]
  have 1: "current_step req = total_steps req \<longrightarrow>
            narrative_guidance req = Inr (finale_guidance (main_quest_line req))"
    by (simp add: narrative_guidance_def)
  have 2: "3 / 4 * rat_of_int (total_steps req) \<le> rat_of_int (current_step req) \<and>
          current_step req < total_steps req \<longrightarrow>
            narrative_guidance req =
              Inr (climax_guidance (current_step req) (total_steps req))"
    by (simp add: narrative_guidance_def ex)
  have "rat_of_int (current_step req) < 3 / 4 * rat_of_int (total_steps req) \<Longrightarrow>
      current_step req \<noteq> total_steps req"
    using assms(1) by auto
  then have 3: "rat_of_int (current_step req) < 3 / 4 * rat_of_int (total_steps req) \<longrightarrow>
            narrative_guidance req =
              Inr (developing_guidance (current_step req) (total_steps req)
                     (main_quest_line req))"
    by (auto simp: narrative_guidance_def ex)
  from 1 2 3 guidance_distinct show ?thesis by blast
qed

text \<open>
  Runs with four steps: step 4 is the finale, step 3 the climax, step 2 developing.
\<close>

theorem phase_follows_thresholds_witness:
  "narrative_guidance (demo_request (Some (ascii ''A'')) None [demo_step] 4 4) =
     Inr (finale_guidance (ascii ''find the three acorns'')) \<and>
   narrative_guidance (demo_request (Some (ascii ''A'')) None [demo_step] 3 4) =
     Inr (climax_guidance 3 4) \<and>
   narrative_guidance (demo_request (Some (ascii ''A'')) None [demo_step] 2 4) =
     Inr (developing_guidance 2 4 (ascii ''find the three acorns''))"
  using phase_follows_thresholds [of "demo_request (Some (ascii ''A'')) None [demo_step] 4 4"]
    phase_follows_thresholds [of "demo_request (Some (ascii ''A'')) None [demo_step] 3 4"]
    phase_follows_thresholds [of "demo_request (Some (ascii ''A'')) None [demo_step] 2 4"]
  by (simp add: demo_request_def main_quest_line_def demo_step_def)

text \<open>
  Beyond that range the product is rounded. With \<open>total_steps = 3002399751580331\<close>
  three times the step count is \<open>2 ^ 53 + 1\<close>, which a double rounds to \<open>2 ^ 53\<close>; the
  product is then \<open>2 ^ 51\<close>, and step \<open>2 ^ 51\<close>, which is below three quarters of the step
  count, gets the climax text. Claim C7 as stated fails there.
\<close>

lemma bit_length_54: "bit_length 9007199254740993 = 54"
  by (simp add: bit_length.simps)

lemma round53_tie: "round53 9007199254740993 = 9007199254740992"
  apply (simp only: round53_def Let_def)
  apply (simp only: abs_numeral nat_numeral bit_length_54)
  apply simp
  done

theorem rounding_moves_the_threshold:
  "1 \<le> current_step (demo_request (Some (ascii ''A'')) None [demo_step]
          2251799813685248 3002399751580331) \<and>
   current_step (demo_request (Some (ascii ''A'')) None [demo_step]
          2251799813685248 3002399751580331) \<le>
     total_steps (demo_request (Some (ascii ''A'')) None [demo_step]
          2251799813685248 3002399751580331) \<and>
   rat_of_int 2251799813685248 < 3 / 4 * rat_of_int 3002399751580331 \<and>
   narrative_guidance (demo_request (Some (ascii ''A'')) None [demo_step]
          2251799813685248 3002399751580331) =
     Inr (climax_guidance 2251799813685248 3002399751580331) \<and>
   climax_guidance 2251799813685248 3002399751580331 \<noteq>
     developing_guidance 2251799813685248 3002399751580331 (main_quest demo_step)"
proof -
  have f: "float_of_int 3002399751580331 = Inr 3002399751580331"
    by (simp add: float_of_int_def round53_exact Let_def)
  have t: "times_075 3002399751580331 = 2251799813685248"
    by (simp add: times_075_def round53_tie)
  show ?thesis
    by (simp add: narrative_guidance_def demo_request_def f t guidance_distinct)
qed

section \<open>Resolving the player's action\<close>





section \<open>An empty history\<close>




end
